theory Spec2Isabelle
  imports Complex_Main
begin

section \<open>The embedding store (database.py)\<close>

text \<open>
  The store is an SQLite file with two tables. A table is modelled as the list of its
  rows; the \<open>sqlite_sequence\<close> counters that \<open>AUTOINCREMENT\<close> keeps per table are
  part of the state, because \<open>DELETE\<close> leaves them alone. The \<open>created_at\<close> columns
  are never read by the code and are left out.

  An embedding is written as \<open>embedding.tobytes()\<close> and read back with
  \<open>np.frombuffer(.., dtype=np.float32)\<close>. The \<open>BLOB\<close> column is modelled as the
  sequence of \<open>float32\<close> numbers that \<open>frombuffer\<close> decodes from it, and a vector
  handed to the store stands for that reading of its bytes: for a \<open>float32\<close> array
  it is the array itself. The components are taken as reals (finite numbers); nothing
  below depends on their values, only on how many there are.
\<close>

type_synonym vector = "real list"

record document =
  doc_id :: int
  filename :: string
  file_path :: string

record sentence =
  sent_id :: int
  document_id :: int
  sentence_text :: string
  sentence_index :: int
  embedding :: "vector option"

record database =
  documents :: "document list"
  sentences :: "sentence list"
  documents_seq :: int
  sentences_seq :: int

text \<open>Exceptions of the Python code that the model follows as values.\<close>

datatype exn =
    IntegrityError | OperationalError | OverflowError | TooBig
  | TypeError | ValueError | AssertionError | AttributeError | RuntimeError

text \<open>
  \<open>init_database\<close> on a new file: both tables exist and are empty. On an existing
  file every statement is \<open>IF NOT EXISTS\<close> and changes nothing.
\<close>

definition init_database :: database where
  "init_database = \<lparr>documents = [], sentences = [], documents_seq = 0, sentences_seq = 0\<rparr>"

text \<open>
  \<open>INTEGER PRIMARY KEY AUTOINCREMENT\<close>: the new rowid is one more than the largest
  rowid the table has ever held.
\<close>

definition next_rowid :: "int \<Rightarrow> int list \<Rightarrow> int" where
  "next_rowid seq ids = fold max ids seq + 1"

text \<open>
  The \<open>INSERT\<close> of \<open>add_document\<close>. \<open>UNIQUE(file_path)\<close> makes it raise
  \<open>IntegrityError\<close> when a row with the path exists; the failed statement changes
  nothing.
\<close>

definition insert_document :: "database \<Rightarrow> string \<Rightarrow> string \<Rightarrow> exn + (int \<times> database)" where
  "insert_document db fname fpath =
     (if fpath \<in> set (map file_path (documents db)) then Inl IntegrityError
      else
        let rowid = next_rowid (documents_seq db) (map doc_id (documents db))
        in Inr (rowid,
             db\<lparr>documents := documents db @
                   [\<lparr>doc_id = rowid, filename = fname, file_path = fpath\<rparr>],
                documents_seq := rowid\<rparr>))"

text \<open>\<open>cursor.fetchone()\<close>: the first row of the result, or \<open>None\<close>.\<close>

definition fetchone :: "'a list \<Rightarrow> 'a option" where
  "fetchone rows = (case rows of [] \<Rightarrow> None | r # _ \<Rightarrow> Some r)"

text \<open>
  \<open>add_document\<close> returns \<open>cursor.lastrowid\<close> after a successful insert. In the
  \<open>except sqlite3.IntegrityError\<close> branch it selects the id of the row with that
  path; \<open>fetchone()[0]\<close> on no row would be a \<open>TypeError\<close>.
\<close>

definition add_document :: "database \<Rightarrow> string \<Rightarrow> string \<Rightarrow> (exn + int) \<times> database" where
  "add_document db fname fpath =
     (case insert_document db fname fpath of
        Inr (lastrowid, db') \<Rightarrow> (Inr lastrowid, db')
      | Inl e \<Rightarrow>
          (case fetchone (map doc_id (filter (\<lambda>d. file_path d = fpath) (documents db))) of
             Some i \<Rightarrow> (Inr i, db)
           | None \<Rightarrow> (Inl TypeError, db)))"

text \<open>
  A Python integer can be bound to an SQLite parameter only if it fits in 64 bits,
  signed; otherwise \<open>execute\<close> raises \<open>OverflowError\<close>.
\<close>

definition int64 :: "int \<Rightarrow> bool" where
  "int64 n = (- (2 ^ 63) \<le> n \<and> n < 2 ^ 63)"

text \<open>
  SQLite has a length limit. It refuses a text or a blob that is too long when the
  parameter is bound, and a row that is too long when the statement runs. Where the
  limit lies depends on how SQLite was built and on the layout of the row, so the three
  tests are parameters of the model; the class of the exception depends on the version
  of Python and is written \<open>TooBig\<close>.
\<close>

record sqlite_limits =
  text_refused :: "string \<Rightarrow> bool"
  blob_refused :: "vector \<Rightarrow> bool"
  row_refused :: "string \<Rightarrow> vector \<Rightarrow> bool"

text \<open>
  \<open>execute\<close> binds the four parameters in order before the statement runs, and stops
  at the first that cannot be bound.
\<close>

definition bind_parameters ::
    "sqlite_limits \<Rightarrow> int \<Rightarrow> string \<Rightarrow> int \<Rightarrow> vector \<Rightarrow> exn option" where
  "bind_parameters lims did txt idx emb =
     (if \<not> int64 did then Some OverflowError
      else if text_refused lims txt then Some TooBig
      else if \<not> int64 idx then Some OverflowError
      else if blob_refused lims emb then Some TooBig
      else None)"

text \<open>
  A table with \<open>AUTOINCREMENT\<close> that has held the largest rowid, \<open>2 ^ 63 - 1\<close>,
  accepts no further row: the insert fails with \<open>SQLITE_FULL\<close>, an
  \<open>OperationalError\<close> in Python.
\<close>

definition rowids_used_up :: "int \<Rightarrow> int list \<Rightarrow> bool" where
  "rowids_used_up seq ids = (2 ^ 63 - 1 \<le> fold max ids seq)"

text \<open>
  \<open>add_sentence_embedding\<close> inserts one row. The method has no test of its own:
  SQLite does not enforce the foreign key unless asked to, and the length of the vector
  is never compared with anything. The call raises only where \<open>sqlite3\<close> does, and then
  the store is as it was. It returns \<open>None\<close>.
\<close>

definition add_sentence_embedding ::
    "sqlite_limits \<Rightarrow> database \<Rightarrow> int \<Rightarrow> string \<Rightarrow> int \<Rightarrow> vector
       \<Rightarrow> (exn + unit) \<times> database" where
  "add_sentence_embedding lims db did txt idx emb =
     (case bind_parameters lims did txt idx emb of
        Some e \<Rightarrow> (Inl e, db)
      | None \<Rightarrow>
          if rowids_used_up (sentences_seq db) (map sent_id (sentences db))
          then (Inl OperationalError, db)
          else if row_refused lims txt emb then (Inl TooBig, db)
          else
            let rowid = next_rowid (sentences_seq db) (map sent_id (sentences db))
            in (Inr (),
                db\<lparr>sentences := sentences db @
                      [\<lparr>sent_id = rowid, document_id = did, sentence_text = txt,
                        sentence_index = idx, embedding = Some emb\<rparr>],
                   sentences_seq := rowid\<rparr>))"

text \<open>
  \<open>get_all_embeddings\<close> is defined twice in the class body; the second definition
  (with \<open>ORDER BY s.id\<close>) replaces the first, so it is the method that runs.
\<close>

definition embedded_rows :: "sentence list \<Rightarrow> (int \<times> vector) list" where
  "embedded_rows rows =
     List.map_filter (\<lambda>s. map_option (Pair (sent_id s)) (embedding s)) rows"

definition get_all_embeddings :: "database \<Rightarrow> (int \<times> vector) list" where
  "get_all_embeddings db = sort_key fst (embedded_rows (sentences db))"

record sentence_info =
  info_id :: int
  info_text :: string
  info_index :: int
  info_filename :: string
  info_file_path :: string

text \<open>\<open>get_sentence_by_id\<close>: the sentence joined with its document, or \<open>None\<close>.\<close>

definition get_sentence_by_id :: "database \<Rightarrow> int \<Rightarrow> sentence_info option" where
  "get_sentence_by_id db sid =
     fetchone
       (concat (map (\<lambda>s. map (\<lambda>d. \<lparr>info_id = sent_id s, info_text = sentence_text s,
                                    info_index = sentence_index s,
                                    info_filename = filename d,
                                    info_file_path = file_path d\<rparr>)
                             (filter (\<lambda>d. document_id s = doc_id d) (documents db)))
                    (filter (\<lambda>s. sent_id s = sid) (sentences db))))"

definition clear_database :: "database \<Rightarrow> database" where
  "clear_database db = db\<lparr>sentences := [], documents := []\<rparr>"

record stats =
  stat_documents :: nat
  stat_sentences :: nat
  stat_embeddings :: nat

definition get_stats :: "database \<Rightarrow> stats" where
  "get_stats db =
     \<lparr>stat_documents = length (documents db),
      stat_sentences = length (sentences db),
      stat_embeddings = length (filter (\<lambda>s. embedding s \<noteq> None) (sentences db))\<rparr>"

text \<open>
  The constraints of the schema that the theorems rely on: primary keys are unique and
  \<open>file_path\<close> is unique.
\<close>

definition wf_database :: "database \<Rightarrow> bool" where
  "wf_database db =
     (distinct (map doc_id (documents db)) \<and>
      distinct (map file_path (documents db)) \<and>
      distinct (map sent_id (sentences db)))"

section \<open>The search engine (search_index.py)\<close>

subsection \<open>The FAISS library, as far as the engine uses it\<close>

text \<open>
  FAISS is a library, not code of this repository. An index is modelled by what the
  engine reads or relies on: its class (with \<open>nlist\<close> for the inverted-file class),
  its dimension \<open>d\<close> and the vectors added so far (\<open>ntotal\<close> is their number).
  Constructing and writing an index are taken to succeed. Whether \<open>train\<close> or
  \<open>add\<close> raises is left to the library: it is a parameter of \<open>build_index\<close>. The
  nearest-neighbour search itself is a parameter of \<open>search\<close>. A theorem that is
  stated for every such parameter holds whatever the library does.
\<close>

datatype index_class = IndexFlatIP | IndexIVFFlat int

record faiss_index =
  faiss_class :: index_class
  faiss_d :: nat
  faiss_vectors :: "vector list"

definition new_IndexFlatIP :: "nat \<Rightarrow> faiss_index" where
  "new_IndexFlatIP dm = \<lparr>faiss_class = IndexFlatIP, faiss_d = dm, faiss_vectors = []\<rparr>"

definition new_IndexIVFFlat :: "nat \<Rightarrow> int \<Rightarrow> faiss_index" where
  "new_IndexIVFFlat dm nlist =
     \<lparr>faiss_class = IndexIVFFlat nlist, faiss_d = dm, faiss_vectors = []\<rparr>"

definition faiss_add :: "faiss_index \<Rightarrow> vector list \<Rightarrow> faiss_index" where
  "faiss_add ix matrix = ix\<lparr>faiss_vectors := faiss_vectors ix @ matrix\<rparr>"

text \<open>
  The exception, if any, with which \<open>index.train(matrix)\<close> and \<open>index.add(matrix)\<close>
  end. A call that raises is taken to leave the index object as it was.
\<close>

record faiss_faults =
  train_raises :: "faiss_index \<Rightarrow> vector list \<Rightarrow> exn option"
  add_raises :: "faiss_index \<Rightarrow> vector list \<Rightarrow> exn option"

definition no_faults :: faiss_faults where
  "no_faults = \<lparr>train_raises = (\<lambda>ix matrix. None), add_raises = (\<lambda>ix matrix. None)\<rparr>"

definition ntotal :: "faiss_index \<Rightarrow> nat" where
  "ntotal ix = length (faiss_vectors ix)"

text \<open>
  Scores and thresholds are floating-point numbers, and the code compares them. A
  float is a finite number, an infinity, or NaN; \<open>float_lt\<close> is \<open><\<close> and
  \<open>float_ge\<close> is \<open>>=\<close> as Python and numpy evaluate them: both are false as soon as
  one side is NaN. The two sides stand for the values that are compared; rounding and
  the conversion between \<open>float32\<close> and \<open>float64\<close> are not modelled.
\<close>

datatype pyfloat = NaN | MinusInf | Finite real | PlusInf

fun float_lt :: "pyfloat \<Rightarrow> pyfloat \<Rightarrow> bool" where
  "float_lt NaN b = False"
| "float_lt a NaN = False"
| "float_lt (Finite x) (Finite y) = (x < y)"
| "float_lt MinusInf MinusInf = False"
| "float_lt MinusInf b = True"
| "float_lt a MinusInf = False"
| "float_lt PlusInf b = False"
| "float_lt a PlusInf = True"

fun float_ge :: "pyfloat \<Rightarrow> pyfloat \<Rightarrow> bool" where
  "float_ge NaN b = False"
| "float_ge a NaN = False"
| "float_ge (Finite x) (Finite y) = (y \<le> x)"
| "float_ge PlusInf b = True"
| "float_ge a PlusInf = False"
| "float_ge a MinusInf = True"
| "float_ge MinusInf b = False"

text \<open>
  The raw result of a nearest-neighbour search: \<open>k\<close> pairs of a score and an ordinal,
  the ordinal \<open>-1\<close> standing for "no result".
\<close>

type_synonym hit = "pyfloat \<times> int"
type_synonym native_search = "faiss_index \<Rightarrow> vector \<Rightarrow> int \<Rightarrow> hit list"

text \<open>
  \<open>index.search(x, k)\<close> of the Python wrapper asserts that the query has the index's
  dimension and that \<open>k\<close> is positive before it calls the native search.
\<close>

definition faiss_search :: "native_search \<Rightarrow> faiss_index \<Rightarrow> vector \<Rightarrow> int \<Rightarrow> exn + hit list" where
  "faiss_search native ix q k =
     (if length q \<noteq> faiss_d ix then Inl AssertionError
      else if k \<le> 0 then Inl AssertionError
      else Inr (native ix q k))"

text \<open>
  The native search of \<open>IndexFlatIP\<close>, used for the concrete instances below: every
  stored vector is scored by its inner product with the query, the \<open>k\<close> best are
  returned in descending order of score, and missing places are filled with the
  ordinal \<open>-1\<close> (and the lowest \<open>float32\<close> as score).
\<close>

fun enumerate_from :: "int \<Rightarrow> 'a list \<Rightarrow> (int \<times> 'a) list" where
  "enumerate_from i [] = []"
| "enumerate_from i (x # xs) = (i, x) # enumerate_from (i + 1) xs"

definition inner_product :: "vector \<Rightarrow> vector \<Rightarrow> real" where
  "inner_product q v = sum_list (map2 (*) q v)"

definition lowest_float32 :: real where
  "lowest_float32 = - 340282346638528859811704183484516925440"

definition flat_ip_search :: native_search where
  "flat_ip_search ix q k =
     (let scored = map (\<lambda>(i, v). (inner_product q v, i)) (enumerate_from 0 (faiss_vectors ix));
          best = take (nat k) (sort_key (\<lambda>(score, i). - score) scored)
      in map (\<lambda>(score, i). (Finite score, i)) best @
         replicate (nat k - length best) (Finite lowest_float32, - 1))"

subsection \<open>The engine's state\<close>

text \<open>
  A file of the engine is absent, unreadable, or holds what \<open>save_index\<close> wrote. The
  mapping file holds the pickled dictionary with the keys \<open>id_mapping\<close> and
  \<open>dimension\<close>.
\<close>

datatype 'a disk_file = Absent | Corrupt | Stored 'a

text \<open>\<open>os.path.exists\<close>.\<close>

definition path_exists :: "'a disk_file \<Rightarrow> bool" where
  "path_exists f = (case f of Absent \<Rightarrow> False | _ \<Rightarrow> True)"

datatype level = INFO | WARNING | ERROR

datatype message =
    BuildStarted | NoEmbeddings | BuildingIndex nat nat | BuildFinished nat | BuildFailed exn
  | IndexSaved | SaveFailed exn
  | IndexFilesMissing | LoadingIndexFile | LoadingMappingFile | IndexLoaded nat
  | LoadFailed exn | LoadFailedIndexPath | LoadFailedMappingPath
  | IndexNotLoaded | SearchFailed exn
  | RebuildStarted

text \<open>
  The state that the methods of \<open>SimilaritySearchIndex\<close> read and write: the fields
  of the object, the two files at \<open>index_path\<close> and \<open>mapping_path\<close>, and the records
  handed to \<open>logging\<close>. The database is a separate argument; no method of the engine
  writes to it.
\<close>

record engine =
  index :: "faiss_index option"
  id_mapping :: "int \<rightharpoonup> int"
  dimension :: "nat option"
  index_file :: "faiss_index disk_file"
  mapping_file :: "((int \<rightharpoonup> int) \<times> nat option) disk_file"
  logged :: "(level \<times> message) list"

definition log_msg :: "level \<Rightarrow> message \<Rightarrow> engine \<Rightarrow> engine" where
  "log_msg lv m st = st\<lparr>logged := logged st @ [(lv, m)]\<rparr>"

text \<open>\<open>__init__\<close>, with the files as they are found on disk.\<close>

definition new_engine ::
    "faiss_index disk_file \<Rightarrow> ((int \<rightharpoonup> int) \<times> nat option) disk_file \<Rightarrow> engine" where
  "new_engine ifile mfile =
     \<lparr>index = None, id_mapping = Map.empty, dimension = None,
      index_file = ifile, mapping_file = mfile, logged = []\<rparr>"

subsection \<open>Building and saving\<close>

text \<open>\<open>np.vstack\<close> raises \<open>ValueError\<close> unless all rows have one length.\<close>

definition vstack :: "vector list \<Rightarrow> exn + vector list" where
  "vstack rows =
     (case rows of
        [] \<Rightarrow> Inl ValueError
      | r # rs \<Rightarrow> if list_all (\<lambda>v. length v = length r) rs then Inr rows else Inl ValueError)"

text \<open>\<open>embeddings_matrix.shape[1]\<close> of a stacked matrix.\<close>

definition shape1 :: "vector list \<Rightarrow> nat" where
  "shape1 matrix = (case matrix of [] \<Rightarrow> 0 | r # _ \<Rightarrow> length r)"

text \<open>
  \<open>save_index\<close> writes both files. It catches every exception itself;
  \<open>faiss.write_index\<close> on \<open>None\<close> is the one the model has.
\<close>

definition save_index :: "engine \<Rightarrow> engine" where
  "save_index st =
     (case index st of
        None \<Rightarrow> log_msg ERROR (SaveFailed TypeError) st
      | Some ix \<Rightarrow>
          log_msg INFO IndexSaved
            (st\<lparr>index_file := Stored ix,
                mapping_file := Stored (id_mapping st, dimension st)\<rparr>))"

text \<open>The number of cluster lists of the \<open>ivf\<close> branch: \<open>min(100, len(embeddings) // 10)\<close>.\<close>

definition ivf_nlist :: "nat \<Rightarrow> int" where
  "ivf_nlist n = min 100 (int n div 10)"

text \<open>
  The end of \<open>build_index\<close> from \<open>self.index.add\<close> on, entered with \<open>self.index\<close>
  already assigned the new index \<open>ix\<close>: add the vectors, build the mapping from
  \<open>enumerate(sentence_ids)\<close>, save, return \<open>True\<close>. An exception of \<open>add\<close> goes to
  the \<open>except\<close> of \<open>build_index\<close>, which logs it and returns \<open>False\<close>; it does
  not touch \<open>self.index\<close>.
\<close>

definition finish_build ::
    "faiss_faults \<Rightarrow> engine \<Rightarrow> faiss_index \<Rightarrow> vector list \<Rightarrow> int list \<Rightarrow> bool \<times> engine" where
  "finish_build lib st ix matrix sentence_ids =
     (case add_raises lib ix matrix of
        Some e \<Rightarrow> (False, log_msg ERROR (BuildFailed e) st)
      | None \<Rightarrow>
          let ix' = faiss_add ix matrix;
              st' = save_index (st\<lparr>index := Some ix',
                                   id_mapping := map_of (enumerate_from 0 sentence_ids)\<rparr>)
          in (True, log_msg INFO (BuildFinished (ntotal ix')) st'))"

text \<open>
  \<open>build_index\<close>. The whole body is inside one \<open>try\<close>; the \<open>except\<close> logs the
  exception and returns \<open>False\<close>, with the fields as the body left them. In both
  branches \<open>self.index\<close> is assigned the new index before \<open>train\<close> and \<open>add\<close> are
  called on it.
\<close>

definition build_index :: "faiss_faults \<Rightarrow> engine \<Rightarrow> database \<Rightarrow> string \<Rightarrow> bool \<times> engine" where
  "build_index lib st db index_type =
     (let st1 = log_msg INFO BuildStarted st;
          embeddings_data = get_all_embeddings db
      in if embeddings_data = [] then (False, log_msg WARNING NoEmbeddings st1)
         else
           let sentence_ids = map fst embeddings_data;
               embeddings = map snd embeddings_data
           in case vstack embeddings of
                Inl e \<Rightarrow> (False, log_msg ERROR (BuildFailed e) st1)
              | Inr embeddings_matrix \<Rightarrow>
                  let dm = shape1 embeddings_matrix;
                      st2 = log_msg INFO (BuildingIndex (length embeddings) dm)
                              (st1\<lparr>dimension := Some dm\<rparr>)
                  in if index_type = ''flat'' then
                       let ix = new_IndexFlatIP dm;
                           st3 = st2\<lparr>index := Some ix\<rparr>
                       in finish_build lib st3 ix embeddings_matrix sentence_ids
                     else if index_type = ''ivf'' then
                       let ix = new_IndexIVFFlat dm (ivf_nlist (length embeddings));
                           st3 = st2\<lparr>index := Some ix\<rparr>
                       in case train_raises lib ix embeddings_matrix of
                            Some e \<Rightarrow> (False, log_msg ERROR (BuildFailed e) st3)
                          | None \<Rightarrow> finish_build lib st3 ix embeddings_matrix sentence_ids
                     else (False, log_msg ERROR (BuildFailed ValueError) st2))"

subsection \<open>Loading\<close>

text \<open>The \<open>except\<close> branch of \<open>load_index\<close>: three error records, and the fields reset.\<close>

definition load_failed :: "exn \<Rightarrow> engine \<Rightarrow> bool \<times> engine" where
  "load_failed e st =
     (False,
      (log_msg ERROR LoadFailedMappingPath
        (log_msg ERROR LoadFailedIndexPath
          (log_msg ERROR (LoadFailed e) st)))
       \<lparr>index := None, id_mapping := Map.empty, dimension := None\<rparr>)"

definition load_index :: "engine \<Rightarrow> bool \<times> engine" where
  "load_index st =
     (if \<not> path_exists (index_file st) \<or> \<not> path_exists (mapping_file st)
      then (False, log_msg WARNING IndexFilesMissing st)
      else
        let st1 = log_msg INFO LoadingIndexFile st
        in case index_file st of
             Stored ix \<Rightarrow>
               (let st2 = log_msg INFO LoadingMappingFile (st1\<lparr>index := Some ix\<rparr>)
                in case mapping_file st of
                     Stored (m, dm) \<Rightarrow>
                       (True, log_msg INFO (IndexLoaded (ntotal ix))
                                (st2\<lparr>id_mapping := m, dimension := dm\<rparr>))
                   | _ \<Rightarrow> load_failed ValueError st2)
           | _ \<Rightarrow> load_failed ValueError st1)"

subsection \<open>Searching\<close>

text \<open>
  One result: the dictionary of \<open>get_sentence_by_id\<close> with the two keys that
  \<open>search\<close> adds.
\<close>

record search_result =
  res_id :: int
  res_text :: string
  res_index :: int
  res_filename :: string
  res_file_path :: string
  similarity_score :: pyfloat
  rank :: int

definition with_score_and_rank :: "sentence_info \<Rightarrow> pyfloat \<Rightarrow> int \<Rightarrow> search_result" where
  "with_score_and_rank sentence_info score r =
     \<lparr>res_id = info_id sentence_info, res_text = info_text sentence_info,
      res_index = info_index sentence_info, res_filename = info_filename sentence_info,
      res_file_path = info_file_path sentence_info,
      similarity_score = score, rank = r\<rparr>"

text \<open>
  The loop \<open>for i, (score, idx) in enumerate(zip(scores[0], indices[0]))\<close>. The
  argument \<open>i\<close> is the position of the first hit of the list in the raw result.
\<close>

fun search_loop :: "engine \<Rightarrow> database \<Rightarrow> pyfloat \<Rightarrow> int \<Rightarrow> hit list \<Rightarrow> search_result list" where
  "search_loop st db threshold i [] = []"
| "search_loop st db threshold i ((score, idx) # hits) =
     (if idx = - 1 then search_loop st db threshold (i + 1) hits
      else if float_lt score threshold then search_loop st db threshold (i + 1) hits
      else
        case id_mapping st idx of
          None \<Rightarrow> search_loop st db threshold (i + 1) hits
        | Some sentence_id \<Rightarrow>
            (case get_sentence_by_id db sentence_id of
               None \<Rightarrow> search_loop st db threshold (i + 1) hits
             | Some sentence_info \<Rightarrow>
                 with_score_and_rank sentence_info score (i + 1)
                   # search_loop st db threshold (i + 1) hits))"

text \<open>
  \<open>search\<close>: one lazy load when no index is in memory, then the library's search
  inside \<open>try\<close>; every exception is logged and answered with the empty list.
\<close>

definition search ::
    "native_search \<Rightarrow> engine \<Rightarrow> database \<Rightarrow> vector \<Rightarrow> int \<Rightarrow> pyfloat
       \<Rightarrow> search_result list \<times> engine" where
  "search native st db query_embedding k threshold =
     (let (loaded, st1) = (case index st of None \<Rightarrow> load_index st | Some _ \<Rightarrow> (True, st))
      in if \<not> loaded then ([], log_msg ERROR IndexNotLoaded st1)
         else
           case index st1 of
             None \<Rightarrow> ([], log_msg ERROR (SearchFailed AttributeError) st1)
           | Some ix \<Rightarrow>
               (case faiss_search native ix query_embedding k of
                  Inl e \<Rightarrow> ([], log_msg ERROR (SearchFailed e) st1)
                | Inr hits \<Rightarrow> (search_loop st1 db threshold 0 hits, st1)))"

subsection \<open>Rebuilding\<close>



section \<open>The filtering pipeline in the words of the specification\<close>

text \<open>
  The specification describes the treatment of the raw hits as three passes: discard the
  hits with the invalid ordinal, then keep the hits whose score is at least the
  threshold, then look each remaining hit up. The passes are written out here on the
  hits paired with their position in the raw result, to be compared with
  \<open>search_loop\<close>, which makes all the tests on one hit before it turns to the next.
\<close>

definition discard_invalid :: "(int \<times> hit) list \<Rightarrow> (int \<times> hit) list" where
  "discard_invalid positioned = filter (\<lambda>(i, score, idx). idx \<noteq> - 1) positioned"

definition filter_by_threshold :: "pyfloat \<Rightarrow> (int \<times> hit) list \<Rightarrow> (int \<times> hit) list" where
  "filter_by_threshold threshold positioned =
     filter (\<lambda>(i, score, idx). float_ge score threshold) positioned"

fun hydrate :: "engine \<Rightarrow> database \<Rightarrow> (int \<times> hit) list \<Rightarrow> search_result list" where
  "hydrate st db [] = []"
| "hydrate st db ((i, score, idx) # rest) =
     (case id_mapping st idx of
        None \<Rightarrow> hydrate st db rest
      | Some sentence_id \<Rightarrow>
          (case get_sentence_by_id db sentence_id of
             None \<Rightarrow> hydrate st db rest
           | Some sentence_info \<Rightarrow>
               with_score_and_rank sentence_info score (i + 1) # hydrate st db rest))"

definition three_passes ::
    "engine \<Rightarrow> database \<Rightarrow> pyfloat \<Rightarrow> int \<Rightarrow> hit list \<Rightarrow> search_result list" where
  "three_passes st db threshold i hits =
     hydrate st db (filter_by_threshold threshold (discard_invalid (enumerate_from i hits)))"

text \<open>
  The second pass as the code makes it: a hit is skipped when \<open>score < threshold\<close>
  holds, and kept otherwise.
\<close>

definition skip_below_threshold :: "pyfloat \<Rightarrow> (int \<times> hit) list \<Rightarrow> (int \<times> hit) list" where
  "skip_below_threshold threshold positioned =
     filter (\<lambda>(i, score, idx). \<not> float_lt score threshold) positioned"


definition hit_returned :: "engine \<Rightarrow> database \<Rightarrow> pyfloat \<Rightarrow> hit \<Rightarrow> bool" where
  "hit_returned st db threshold h =
     (case h of
        (score, idx) \<Rightarrow>
          idx \<noteq> - 1 \<and> \<not> float_lt score threshold \<and>
          (case id_mapping st idx of
             None \<Rightarrow> False
           | Some sentence_id \<Rightarrow> get_sentence_by_id db sentence_id \<noteq> None))"

section \<open>Concrete stores and engines\<close>

text \<open>
  The rows of the examples are a few bytes long, far below any length limit of SQLite.
  They are inserted with limits that refuse nothing.
\<close>

definition roomy :: sqlite_limits where
  "roomy = \<lparr>text_refused = (\<lambda>txt. False), blob_refused = (\<lambda>emb. False),
            row_refused = (\<lambda>txt emb. False)\<rparr>"

text \<open>
  A store with one document and two sentences whose embeddings have length 2, reached
  through the store's own operations.
\<close>

definition example_store :: database where
  "example_store =
     snd (add_sentence_embedding roomy
       (snd (add_sentence_embedding roomy
          (snd (add_document init_database ''a.txt'' ''/docs/a.txt''))
          1 ''first sentence'' 0 [1, 0]))
       1 ''second sentence'' 1 [0, 1])"

text \<open>
  The engine after a flat build over that store, started with no files on disk, with
  a library that does not raise.
\<close>

definition example_engine :: engine where
  "example_engine =
     snd (build_index no_faults (new_engine Absent Absent) example_store ''flat'')"



text \<open>
  The same store after sentence 1 has been deleted from the \<open>sentences\<close> table by
  hand, while the engine still holds the index built before.
\<close>

definition drifted_store :: database where
  "drifted_store =
     example_store\<lparr>sentences := filter (\<lambda>s. sent_id s \<noteq> 1) (sentences example_store)\<rparr>"

text \<open>
  A store reached through the store's own operations in which sentence 1 names a
  document that does not exist (SQLite does not enforce the foreign key), so that
  \<open>get_sentence_by_id\<close> finds no row for it; and the engine after a flat build over
  that store.
\<close>

definition orphan_store :: database where
  "orphan_store =
     snd (add_sentence_embedding roomy
       (snd (add_sentence_embedding roomy
          (snd (add_document init_database ''a.txt'' ''/docs/a.txt''))
          7 ''orphan sentence'' 0 [1, 0]))
       1 ''second sentence'' 1 [0, 1])"

definition orphan_engine :: engine where
  "orphan_engine =
     snd (build_index no_faults (new_engine Absent Absent) orphan_store ''flat'')"

text \<open>A store with five embedded sentences.\<close>

definition five_store :: database where
  "five_store =
     snd (add_sentence_embedding roomy
       (snd (add_sentence_embedding roomy
          (snd (add_sentence_embedding roomy example_store 1 ''third sentence'' 2 [1, 1]))
          1 ''fourth sentence'' 3 [2, 1]))
       1 ''fifth sentence'' 4 [1, 2])"

section \<open>Facts about the store\<close>

lemma fold_max_ge: "(s::int) \<le> fold max ids s"
  by (induction ids arbitrary: s) (auto intro: order_trans[OF max.cobounded2])

lemma fold_max_mem: "(i::int) \<in> set ids \<Longrightarrow> i \<le> fold max ids s"
  by (induction ids arbitrary: s) (auto intro: order_trans[OF max.cobounded1 fold_max_ge])

lemma next_rowid_fresh: "next_rowid seq ids \<notin> set ids"
  using fold_max_mem[of "next_rowid seq ids" ids seq] by (auto simp: next_rowid_def)






text \<open>The operations of the store keep the constraints of the schema.\<close>

lemma wf_init_database: "wf_database init_database"
  by (simp add: wf_database_def init_database_def)


lemma wf_add_sentence_embedding:
  "wf_database db \<Longrightarrow> wf_database (snd (add_sentence_embedding lims db did txt idx emb))"
  using next_rowid_fresh[of "sentences_seq db" "map sent_id (sentences db)"]
  by (simp add: wf_database_def add_sentence_embedding_def Let_def split: option.splits)

lemma wf_clear_database: "wf_database (clear_database db)"
  by (simp add: wf_database_def clear_database_def)

lemma map_fst_embedded_rows:
  "map fst (embedded_rows rows) = map sent_id (filter (\<lambda>s. embedding s \<noteq> None) rows)"
  by (induction rows) (auto simp: embedded_rows_def List.map_filter_simps split: option.splits)

lemma set_embedded_rows:
  "set (embedded_rows rows) = {(sent_id s, v) | s v. s \<in> set rows \<and> embedding s = Some v}"
  by (induction rows) (auto simp: embedded_rows_def List.map_filter_simps split: option.splits)

lemma length_embedded_rows:
  "length (embedded_rows rows) = length (filter (\<lambda>s. embedding s \<noteq> None) rows)"
  by (induction rows) (auto simp: embedded_rows_def List.map_filter_simps split: option.splits)

lemma distinct_ids_embedded_rows:
  "distinct (map sent_id rows) \<Longrightarrow> distinct (map fst (embedded_rows rows))"
  by (simp add: map_fst_embedded_rows distinct_map_filter)

lemma strict_sorted_sort_key:
  assumes "distinct (map f xs)"
  shows "sorted_wrt (<) (map f (sort_key f xs))"
proof -
  have "distinct (map f (sort_key f xs))"
    using assms by (simp add: distinct_map)
  moreover have "sorted (map f (sort_key f xs))" by (rule sorted_sort_key)
  ultimately show ?thesis by (simp add: strict_sorted_iff)
qed

lemma strict_sorted_keys_unique:
  fixes xs ys :: "(int \<times> 'a) list"
  assumes "sorted_wrt (<) (map fst xs)" "sorted_wrt (<) (map fst ys)" "set xs = set ys"
  shows "xs = ys"
proof -
  have dx: "distinct (map fst xs)" and dy: "distinct (map fst ys)"
    using assms(1,2) by (simp_all add: strict_sorted_iff)
  have "map fst xs = map fst ys"
  proof (rule sorted_distinct_set_unique)
    show "sorted (map fst xs)" "sorted (map fst ys)"
      using assms(1,2) by (simp_all add: strict_sorted_iff)
    show "set (map fst xs) = set (map fst ys)" using assms(3) by simp
  qed (rule dx, rule dy)
  moreover have "inj_on fst (set xs \<union> set ys)"
    using dx assms(3) by (simp add: distinct_map)
  ultimately show ?thesis by (simp add: inj_on_map_eq_map)
qed



section \<open>The concrete stores and engines, evaluated\<close>

lemma example_store_eval:
  "example_store =
     \<lparr>documents = [\<lparr>doc_id = 1, filename = ''a.txt'', file_path = ''/docs/a.txt''\<rparr>],
      sentences =
        [\<lparr>sent_id = 1, document_id = 1, sentence_text = ''first sentence'',
          sentence_index = 0, embedding = Some [1, 0]\<rparr>,
         \<lparr>sent_id = 2, document_id = 1, sentence_text = ''second sentence'',
          sentence_index = 1, embedding = Some [0, 1]\<rparr>],
      documents_seq = 1, sentences_seq = 2\<rparr>"
  by (simp add: example_store_def add_sentence_embedding_def add_document_def
      insert_document_def init_database_def next_rowid_def bind_parameters_def int64_def roomy_def rowids_used_up_def
      Let_def)

lemma example_embeddings:
  "get_all_embeddings example_store = [(1, [1, 0]), (2, [0, 1])]"
  by (simp add: example_store_eval get_all_embeddings_def embedded_rows_def map_filter_def)

lemma wf_example_store: "wf_database example_store"
  by (simp add: example_store_eval wf_database_def)

lemma example_engine_eval:
  "example_engine =
     \<lparr>index = Some \<lparr>faiss_class = IndexFlatIP, faiss_d = 2, faiss_vectors = [[1, 0], [0, 1]]\<rparr>,
      id_mapping = map_of [(0, 1), (1, 2)],
      dimension = Some 2,
      index_file =
        Stored \<lparr>faiss_class = IndexFlatIP, faiss_d = 2, faiss_vectors = [[1, 0], [0, 1]]\<rparr>,
      mapping_file = Stored (map_of [(0, 1), (1, 2)], Some 2),
      logged = [(INFO, BuildStarted), (INFO, BuildingIndex 2 2), (INFO, IndexSaved),
                (INFO, BuildFinished 2)]\<rparr>"
  by (simp add: example_engine_def build_index_def example_embeddings vstack_def shape1_def
      finish_build_def new_IndexFlatIP_def faiss_add_def save_index_def log_msg_def
      new_engine_def ntotal_def no_faults_def Let_def)

lemma drifted_store_eval:
  "drifted_store =
     \<lparr>documents = [\<lparr>doc_id = 1, filename = ''a.txt'', file_path = ''/docs/a.txt''\<rparr>],
      sentences =
        [\<lparr>sent_id = 2, document_id = 1, sentence_text = ''second sentence'',
          sentence_index = 1, embedding = Some [0, 1]\<rparr>],
      documents_seq = 1, sentences_seq = 2\<rparr>"
  by (simp add: drifted_store_def example_store_eval)

lemma flat_example_hits:
  "flat_ip_search
     \<lparr>faiss_class = IndexFlatIP, faiss_d = 2, faiss_vectors = [[1, 0], [0, 1]]\<rparr> [1, 0] 2
     = [(Finite 1, 0), (Finite 0, 1)]"
  by (simp add: flat_ip_search_def inner_product_def Let_def)

lemma flat_example_hits_padded:
  "flat_ip_search
     \<lparr>faiss_class = IndexFlatIP, faiss_d = 2, faiss_vectors = [[1, 0], [0, 1]]\<rparr> [1, 0] 3
     = [(Finite 1, 0), (Finite 0, 1), (Finite lowest_float32, - 1)]"
  by (simp add: flat_ip_search_def inner_product_def Let_def numeral_3_eq_3)

lemma drift_search:
  "fst (search flat_ip_search example_engine drifted_store [1, 0] 2 (Finite 0)) =
     [\<lparr>res_id = 2, res_text = ''second sentence'', res_index = 1, res_filename = ''a.txt'',
       res_file_path = ''/docs/a.txt'', similarity_score = Finite 0, rank = 2\<rparr>]"
  by (simp add: search_def example_engine_eval drifted_store_eval faiss_search_def
      flat_example_hits get_sentence_by_id_def fetchone_def with_score_and_rank_def)

lemma orphan_store_eval:
  "orphan_store =
     \<lparr>documents = [\<lparr>doc_id = 1, filename = ''a.txt'', file_path = ''/docs/a.txt''\<rparr>],
      sentences =
        [\<lparr>sent_id = 1, document_id = 7, sentence_text = ''orphan sentence'',
          sentence_index = 0, embedding = Some [1, 0]\<rparr>,
         \<lparr>sent_id = 2, document_id = 1, sentence_text = ''second sentence'',
          sentence_index = 1, embedding = Some [0, 1]\<rparr>],
      documents_seq = 1, sentences_seq = 2\<rparr>"
  by (simp add: orphan_store_def add_sentence_embedding_def add_document_def
      insert_document_def init_database_def next_rowid_def bind_parameters_def int64_def roomy_def rowids_used_up_def
      Let_def)

lemma orphan_embeddings:
  "get_all_embeddings orphan_store = [(1, [1, 0]), (2, [0, 1])]"
  by (simp add: orphan_store_eval get_all_embeddings_def embedded_rows_def map_filter_def)

lemma orphan_engine_eval:
  "orphan_engine =
     \<lparr>index = Some \<lparr>faiss_class = IndexFlatIP, faiss_d = 2, faiss_vectors = [[1, 0], [0, 1]]\<rparr>,
      id_mapping = map_of [(0, 1), (1, 2)],
      dimension = Some 2,
      index_file =
        Stored \<lparr>faiss_class = IndexFlatIP, faiss_d = 2, faiss_vectors = [[1, 0], [0, 1]]\<rparr>,
      mapping_file = Stored (map_of [(0, 1), (1, 2)], Some 2),
      logged = [(INFO, BuildStarted), (INFO, BuildingIndex 2 2), (INFO, IndexSaved),
                (INFO, BuildFinished 2)]\<rparr>"
  by (simp add: orphan_engine_def build_index_def orphan_embeddings vstack_def shape1_def
      finish_build_def new_IndexFlatIP_def faiss_add_def save_index_def log_msg_def
      new_engine_def ntotal_def no_faults_def Let_def)

lemma orphan_search:
  "fst (search flat_ip_search orphan_engine orphan_store [1, 0] 2 (Finite 0)) =
     [\<lparr>res_id = 2, res_text = ''second sentence'', res_index = 1, res_filename = ''a.txt'',
       res_file_path = ''/docs/a.txt'', similarity_score = Finite 0, rank = 2\<rparr>]"
  by (simp add: search_def orphan_engine_eval orphan_store_eval faiss_search_def
      flat_example_hits get_sentence_by_id_def fetchone_def with_score_and_rank_def)

lemma five_embeddings:
  "get_all_embeddings five_store =
     [(1, [1, 0]), (2, [0, 1]), (3, [1, 1]), (4, [2, 1]), (5, [1, 2])]"
  by (simp add: five_store_def example_store_eval get_all_embeddings_def embedded_rows_def
       map_filter_def add_sentence_embedding_def next_rowid_def bind_parameters_def int64_def roomy_def
       rowids_used_up_def Let_def)

section \<open>Facts about the engine\<close>

lemma search_loaded:
  assumes "index st = Some ix" "length q = faiss_d ix" "0 < k"
  shows "search native st db q k thr = (search_loop st db thr 0 (native ix q k), st)"
  using assms by (simp add: search_def faiss_search_def)

lemma float_ge_iff:
  "float_ge a b \<longleftrightarrow> a \<noteq> NaN \<and> b \<noteq> NaN \<and> \<not> float_lt a b"
  by (cases a; cases b) auto

lemma not_float_lt_iff:
  "\<not> float_lt a b \<longleftrightarrow> float_ge a b \<or> a = NaN \<or> b = NaN"
  by (cases a; cases b) auto

lemma search_loop_as_passes:
  "search_loop st db threshold i hits =
     hydrate st db (skip_below_threshold threshold (discard_invalid (enumerate_from i hits)))"
proof (induction hits arbitrary: i)
  case Nil
  show ?case by (simp add: skip_below_threshold_def discard_invalid_def)
next
  case (Cons h hits)
  obtain score idx where h: "h = (score, idx)" by (cases h)
  show ?case
    unfolding h using Cons.IH[of "i + 1"]
    by (simp add: skip_below_threshold_def discard_invalid_def split: option.splits)
qed

lemma skip_below_is_filter_by_threshold:
  assumes "threshold \<noteq> NaN" and "list_all (\<lambda>(score, idx). score \<noteq> NaN) hits"
  shows "skip_below_threshold threshold (discard_invalid (enumerate_from i hits)) =
         filter_by_threshold threshold (discard_invalid (enumerate_from i hits))"
  using assms(2)
proof (induction hits arbitrary: i)
  case Nil
  show ?case by (simp add: skip_below_threshold_def filter_by_threshold_def discard_invalid_def)
next
  case (Cons h hits)
  obtain score idx where h: "h = (score, idx)" by (cases h)
  from Cons.prems have sc: "score \<noteq> NaN"
    and tl: "list_all (\<lambda>(score, idx). score \<noteq> NaN) hits"
    unfolding h by simp_all
  from Cons.IH[OF tl, of "i + 1"] sc assms(1) show ?case
    unfolding h
    by (simp add: skip_below_threshold_def filter_by_threshold_def discard_invalid_def
          float_ge_iff)
qed

lemma search_loop_is_three_passes:
  assumes "threshold \<noteq> NaN" and "list_all (\<lambda>(score, idx). score \<noteq> NaN) hits"
  shows "search_loop st db threshold i hits = three_passes st db threshold i hits"
  by (simp add: search_loop_as_passes three_passes_def
        skip_below_is_filter_by_threshold[OF assms])


lemma search_loop_positions:
  "map (\<lambda>r. (rank r, similarity_score r)) (search_loop st db thr i hits) =
     map (\<lambda>(j, score, idx). (j + 1, score))
       (filter (\<lambda>(j, h). hit_returned st db thr h) (enumerate_from i hits))"
proof (induction hits arbitrary: i)
  case Nil
  show ?case by simp
next
  case (Cons h hits)
  obtain score idx where h: "h = (score, idx)" by (cases h)
  show ?case
    unfolding h using Cons.IH[of "i + 1"]
    by (simp add: hit_returned_def with_score_and_rank_def split: option.splits)
qed

lemma search_loop_rank_bounds:
  "r \<in> set (search_loop st db thr i hits) \<Longrightarrow>
   i < rank r \<and> rank r \<le> i + int (length hits)"
proof (induction hits arbitrary: i)
  case Nil
  then show ?case by simp
next
  case (Cons h hits)
  obtain score idx where h: "h = (score, idx)" by (cases h)
  from Cons.prems have "r \<in> set (search_loop st db thr (i + 1) hits) \<or> rank r = i + 1"
    unfolding h by (auto simp: with_score_and_rank_def split: if_splits option.splits)
  then show ?case
  proof
    assume "r \<in> set (search_loop st db thr (i + 1) hits)"
    from Cons.IH[OF this] show ?thesis by simp
  next
    assume "rank r = i + 1"
    then show ?thesis by simp
  qed
qed

lemma search_loop_ranks_increase:
  "sorted_wrt (<) (map rank (search_loop st db thr i hits))"
proof (induction hits arbitrary: i)
  case Nil
  show ?case by simp
next
  case (Cons h hits)
  obtain score idx where h: "h = (score, idx)" by (cases h)
  have later: "\<And>r. r \<in> set (search_loop st db thr (i + 1) hits) \<Longrightarrow> i + 1 < rank r"
    using search_loop_rank_bounds by blast
  show ?case
    unfolding h using Cons.IH[of "i + 1"] later
    by (auto simp: with_score_and_rank_def split: option.splits)
qed

lemma search_loop_scores_subset:
  "set (map similarity_score (search_loop st db thr i hits)) \<subseteq> set (map fst hits)"
proof (induction hits arbitrary: i)
  case Nil
  show ?case by simp
next
  case (Cons h hits)
  obtain score idx where h: "h = (score, idx)" by (cases h)
  show ?case
    unfolding h using Cons.IH[of "i + 1"]
    by (auto simp: with_score_and_rank_def split: option.splits)
qed

lemma search_loop_scores_descend:
  "sorted_wrt float_ge (map fst hits) \<Longrightarrow>
   sorted_wrt float_ge (map similarity_score (search_loop st db thr i hits))"
proof (induction hits arbitrary: i)
  case Nil
  show ?case by simp
next
  case (Cons h hits)
  obtain score idx where h: "h = (score, idx)" by (cases h)
  from Cons.prems have tl: "sorted_wrt float_ge (map fst hits)"
    and hd: "\<And>s. s \<in> set (map fst hits) \<Longrightarrow> float_ge score s"
    unfolding h by auto
  have below:
    "\<And>s. s \<in> set (map similarity_score (search_loop st db thr (i + 1) hits)) \<Longrightarrow>
       float_ge score s"
    using search_loop_scores_subset hd by blast
  show ?case
    unfolding h using Cons.IH[OF tl, of "i + 1"] below
    by (auto simp: with_score_and_rank_def split: option.splits)
qed

text \<open>
  What the loop returns, hit by hit: the returned hits in raw order, each with its raw
  position plus one as rank and with its raw score.
\<close>

lemma search_ranks_are_raw_positions:
  assumes "index st = Some ix" and "length q = faiss_d ix" and "0 < k"
  shows "map (\<lambda>r. (rank r, similarity_score r)) (fst (search native st db q k thr)) =
           map (\<lambda>(j, score, idx). (j + 1, score))
             (filter (\<lambda>(j, h). hit_returned st db thr h) (enumerate_from 0 (native ix q k))) \<and>
         sorted_wrt (<) (map rank (fst (search native st db q k thr))) \<and>
         (sorted_wrt float_ge (map fst (native ix q k)) \<longrightarrow>
            sorted_wrt float_ge (map similarity_score (fst (search native st db q k thr))))"
  by (simp add: search_loaded[OF assms] search_loop_positions search_loop_ranks_increase
        search_loop_scores_descend)


text \<open>
  When every dropped hit comes after every returned one, as it does when the library
  returns descending scores with the invalid ordinals last and every mapped sentence
  resolves, the ranks are consecutive from \<open>i + 1\<close>.
\<close>

lemma search_loop_all_dropped:
  "list_all (\<lambda>h. \<not> hit_returned st db thr h) hits \<Longrightarrow> search_loop st db thr i hits = []"
proof (induction hits arbitrary: i)
  case Nil
  show ?case by simp
next
  case (Cons h hits)
  obtain score idx where h: "h = (score, idx)" by (cases h)
  from Cons.prems have tl: "list_all (\<lambda>h. \<not> hit_returned st db thr h) hits"
    and hd: "\<not> hit_returned st db thr (score, idx)"
    unfolding h by simp_all
  from hd show ?case
    unfolding h using Cons.IH[OF tl, of "i + 1"]
    by (auto simp: hit_returned_def split: option.splits)
qed

lemma search_ranks_contiguous_when_drops_trail:
  "list_all (hit_returned st db thr) kept \<Longrightarrow>
   list_all (\<lambda>h. \<not> hit_returned st db thr h) dropped \<Longrightarrow>
   map rank (search_loop st db thr i (kept @ dropped)) = map fst (enumerate_from (i + 1) kept)"
proof (induction kept arbitrary: i)
  case Nil
  then show ?case by (simp add: search_loop_all_dropped)
next
  case (Cons h kept)
  obtain score idx where h: "h = (score, idx)" by (cases h)
  from Cons.prems have tl: "list_all (hit_returned st db thr) kept"
    and hd: "hit_returned st db thr (score, idx)"
    unfolding h by simp_all
  from hd show ?case
    unfolding h using Cons.IH[OF tl Cons.prems(2), of "i + 1"]
    by (auto simp: hit_returned_def with_score_and_rank_def split: option.splits)
qed



section \<open>The claims\<close>

text \<open>
  Claim C1 says that, once a store has a dimension, adding a vector of another length
  fails with \<open>DimensionMismatch\<close> and leaves the counts alone. The store has no
  notion of a dimension, and \<open>add_sentence_embedding\<close> never compares the length of
  the vector with that of another: for any two vectors that SQLite does not refuse as
  too long for a blob or a row, the outcome of the call is the same. The call succeeds
  exactly when \<open>sqlite3\<close> can bind the arguments, the table has a rowid left and the
  row is not too long; then it inserts one row with the vector, so that the document
  count stays and the sentence and embedding counts each grow by one. Otherwise it
  raises and the store is as it was.
\<close>

theorem add_sentence_embedding_ignores_length:
  "(\<not> blob_refused lims emb \<and> \<not> blob_refused lims emb' \<and>
    \<not> row_refused lims txt emb \<and> \<not> row_refused lims txt emb' \<longrightarrow>
      fst (add_sentence_embedding lims db did txt idx emb') =
        fst (add_sentence_embedding lims db did txt idx emb)) \<and>
   (bind_parameters lims did txt idx emb = None \<and>
    \<not> rowids_used_up (sentences_seq db) (map sent_id (sentences db)) \<and>
    \<not> row_refused lims txt emb \<longrightarrow>
      fst (add_sentence_embedding lims db did txt idx emb) = Inr () \<and>
      stat_documents (get_stats (snd (add_sentence_embedding lims db did txt idx emb)))
        = stat_documents (get_stats db) \<and>
      stat_sentences (get_stats (snd (add_sentence_embedding lims db did txt idx emb)))
        = stat_sentences (get_stats db) + 1 \<and>
      stat_embeddings (get_stats (snd (add_sentence_embedding lims db did txt idx emb)))
        = stat_embeddings (get_stats db) + 1 \<and>
      embedded_rows (sentences (snd (add_sentence_embedding lims db did txt idx emb))) =
        embedded_rows (sentences db) @
          [(next_rowid (sentences_seq db) (map sent_id (sentences db)), emb)]) \<and>
   (\<not> (bind_parameters lims did txt idx emb = None \<and>
       \<not> rowids_used_up (sentences_seq db) (map sent_id (sentences db)) \<and>
       \<not> row_refused lims txt emb) \<longrightarrow>
      (\<exists>e. fst (add_sentence_embedding lims db did txt idx emb) = Inl e) \<and>
      snd (add_sentence_embedding lims db did txt idx emb) = db) \<and>
   (bind_parameters lims did txt idx emb = None \<longleftrightarrow>
      int64 did \<and> int64 idx \<and> \<not> text_refused lims txt \<and> \<not> blob_refused lims emb)"
  by (auto simp: add_sentence_embedding_def get_stats_def Let_def embedded_rows_def
        map_filter_def bind_parameters_def split: option.splits)

theorem add_sentence_embedding_ignores_length_witness:
  "bind_parameters roomy 1 ''third sentence'' 2 [1, 0, 0] = None \<and>
   \<not> rowids_used_up (sentences_seq example_store) (map sent_id (sentences example_store)) \<and>
   fst (add_sentence_embedding roomy example_store 1 ''third sentence'' 2 [1, 0]) =
     fst (add_sentence_embedding roomy example_store 1 ''third sentence'' 2 [1, 0, 0]) \<and>
   fst (add_sentence_embedding roomy example_store 1 ''third sentence'' 2 [1, 0, 0]) = Inr () \<and>
   stat_sentences (get_stats
       (snd (add_sentence_embedding roomy example_store 1 ''third sentence'' 2 [1, 0, 0])))
     = 3 \<and>
   stat_embeddings (get_stats
       (snd (add_sentence_embedding roomy example_store 1 ''third sentence'' 2 [1, 0, 0])))
     = 3 \<and>
   \<not> int64 (2 ^ 63) \<and>
   add_sentence_embedding roomy example_store 1 ''third sentence'' (2 ^ 63) [1, 0, 0] =
     (Inl OverflowError, example_store)"
proof -
  have fits: "\<not> blob_refused roomy [1, 0] \<and> \<not> blob_refused roomy [1, 0, 0] \<and>
      \<not> row_refused roomy ''third sentence'' [1, 0] \<and>
      \<not> row_refused roomy ''third sentence'' [1, 0, 0]"
    by (simp add: roomy_def)
  have bound: "bind_parameters roomy 1 ''third sentence'' 2 [1, 0, 0] = None"
    by (simp add: bind_parameters_def int64_def roomy_def)
  have room:
    "\<not> rowids_used_up (sentences_seq example_store) (map sent_id (sentences example_store))"
    by (simp add: rowids_used_up_def example_store_eval)
  have n: "stat_sentences (get_stats example_store) = 2"
    "stat_embeddings (get_stats example_store) = 2"
    by (simp_all add: get_stats_def example_store_eval)
  note good = add_sentence_embedding_ignores_length
    [of roomy "[1, 0, 0]" "[1, 0]" "''third sentence''" example_store 1 2]
  from good fits have same:
    "fst (add_sentence_embedding roomy example_store 1 ''third sentence'' 2 [1, 0]) =
     fst (add_sentence_embedding roomy example_store 1 ''third sentence'' 2 [1, 0, 0])"
    by blast
  from good bound room fits have ins:
    "fst (add_sentence_embedding roomy example_store 1 ''third sentence'' 2 [1, 0, 0]) = Inr () \<and>
     stat_documents (get_stats
         (snd (add_sentence_embedding roomy example_store 1 ''third sentence'' 2 [1, 0, 0])))
       = stat_documents (get_stats example_store) \<and>
     stat_sentences (get_stats
         (snd (add_sentence_embedding roomy example_store 1 ''third sentence'' 2 [1, 0, 0])))
       = stat_sentences (get_stats example_store) + 1 \<and>
     stat_embeddings (get_stats
         (snd (add_sentence_embedding roomy example_store 1 ''third sentence'' 2 [1, 0, 0])))
       = stat_embeddings (get_stats example_store) + 1 \<and>
     embedded_rows (sentences
         (snd (add_sentence_embedding roomy example_store 1 ''third sentence'' 2 [1, 0, 0])))
       = embedded_rows (sentences example_store) @
          [(next_rowid (sentences_seq example_store) (map sent_id (sentences example_store)),
            [1, 0, 0])]"
    by blast
  then have inserted:
    "fst (add_sentence_embedding roomy example_store 1 ''third sentence'' 2 [1, 0, 0]) = Inr ()"
    "stat_sentences (get_stats
         (snd (add_sentence_embedding roomy example_store 1 ''third sentence'' 2 [1, 0, 0])))
       = 3"
    "stat_embeddings (get_stats
         (snd (add_sentence_embedding roomy example_store 1 ''third sentence'' 2 [1, 0, 0])))
       = 3"
    unfolding n by simp_all
  have big: "\<not> int64 (2 ^ 63)" by (simp add: int64_def)
  have unbound:
    "bind_parameters roomy 1 ''third sentence'' (2 ^ 63) [1, 0, 0] = Some OverflowError"
    by (simp add: bind_parameters_def int64_def roomy_def)
  note bad = add_sentence_embedding_ignores_length
    [of roomy "[1, 0, 0]" "[1, 0]" "''third sentence''" example_store 1 "2 ^ 63"]
  from bad unbound have kept:
    "snd (add_sentence_embedding roomy example_store 1 ''third sentence'' (2 ^ 63) [1, 0, 0])
        = example_store"
    by simp
  have "fst (add_sentence_embedding roomy example_store 1 ''third sentence'' (2 ^ 63) [1, 0, 0])
       = Inl OverflowError"
    unfolding add_sentence_embedding_def unbound by simp
  with kept have raised:
    "add_sentence_embedding roomy example_store 1 ''third sentence'' (2 ^ 63) [1, 0, 0] =
       (Inl OverflowError, example_store)"
    by (simp add: prod_eq_iff)
  from bound room same inserted big raised show ?thesis by simp
qed

text \<open>
  C1 as stated fails on a store whose two embeddings have length 2: a vector of length 3
  is inserted in full, and the counts go from (1, 2, 2) to (1, 3, 3).
\<close>

theorem wrong_length_vector_is_inserted:
  "map (\<lambda>(sid, v). length v) (get_all_embeddings example_store) = [2, 2] \<and>
   length [1, 0, 0 :: real] \<noteq> 2 \<and>
   get_stats example_store =
     \<lparr>stat_documents = 1, stat_sentences = 2, stat_embeddings = 2\<rparr> \<and>
   fst (add_sentence_embedding roomy example_store 1 ''third sentence'' 2 [1, 0, 0]) = Inr () \<and>
   get_stats
     (snd (add_sentence_embedding roomy example_store 1 ''third sentence'' 2 [1, 0, 0])) =
     \<lparr>stat_documents = 1, stat_sentences = 3, stat_embeddings = 3\<rparr> \<and>
   get_all_embeddings
     (snd (add_sentence_embedding roomy example_store 1 ''third sentence'' 2 [1, 0, 0])) =
     [(1, [1, 0]), (2, [0, 1]), (3, [1, 0, 0])]"
  by (simp add: example_embeddings)
     (simp add: example_store_eval add_sentence_embedding_def get_stats_def next_rowid_def
        get_all_embeddings_def embedded_rows_def map_filter_def bind_parameters_def
        int64_def roomy_def rowids_used_up_def Let_def)

text \<open>
  Claim C2 says that the results come in descending order of score with ranks 1, 2,
  ..., without gaps, because the rank is assigned after all filtering. The loop sets
  \<open>rank = i + 1\<close> with \<open>i\<close> counting the raw hits, so a hit that is dropped still
  uses up a rank. As long as no hit is dropped in front of a returned one the ranks are
  those of the claim; they are not when the first raw hit cannot be resolved. Two such
  runs: the store in which sentence 1 names a missing document, and the store from
  which sentence 1 was deleted after the build. In both the only result is the second
  raw hit, and its rank is 2.
\<close>

theorem search_rank_gap:
  "length (fst (search flat_ip_search orphan_engine orphan_store [1, 0] 2 (Finite 0))) = 1 \<and>
   map rank (fst (search flat_ip_search orphan_engine orphan_store [1, 0] 2 (Finite 0))) = [2] \<and>
   length (fst (search flat_ip_search example_engine drifted_store [1, 0] 2 (Finite 0))) = 1 \<and>
   map rank (fst (search flat_ip_search example_engine drifted_store [1, 0] 2 (Finite 0))) = [2]"
  by (simp add: drift_search orphan_search)

text \<open>
  Claim C3 says that an \<open>ivf\<close> build uses \<open>min(100, floor(N / 10))\<close> cluster
  lists with a minimum of one. The code has the first part and no minimum: over five
  vectors it asks FAISS for an inverted-file index with zero lists, and that index is
  what \<open>self.index\<close> holds afterwards, whether or not the library then raises.
\<close>

theorem ivf_nlist_zero_for_small_corpus:
  "length (get_all_embeddings five_store) = 5 \<and>
   ivf_nlist 5 = 0 \<and>
   map_option faiss_class
     (index (snd (build_index lib (new_engine Absent Absent) five_store ''ivf'')))
     = Some (IndexIVFFlat 0)"
  by (simp add: build_index_def five_embeddings vstack_def shape1_def
      finish_build_def new_IndexIVFFlat_def faiss_add_def save_index_def log_msg_def
      new_engine_def ntotal_def Let_def ivf_nlist_def split: option.splits)

text \<open>
  Claim C4 says that a query whose length differs from the index's dimension makes
  \<open>search\<close> fail with \<open>DimensionMismatch\<close>, distinguishable from an empty
  result. In the code the library's assertion is caught by the \<open>except\<close> of
  \<open>search\<close>. What holds for every index in memory and every query of another
  length: \<open>search\<close> returns the empty list, and the only trace is one error record
  in the log.
\<close>

theorem search_wrong_dimension_returns_empty:
  assumes "index st = Some ix" and "length q \<noteq> faiss_d ix"
  shows "search native st db q k thr = ([], log_msg ERROR (SearchFailed AssertionError) st)"
  using assms by (simp add: search_def faiss_search_def)

theorem search_wrong_dimension_returns_empty_witness:
  "index example_engine =
     Some \<lparr>faiss_class = IndexFlatIP, faiss_d = 2, faiss_vectors = [[1, 0], [0, 1]]\<rparr> \<and>
   length [1 :: real] \<noteq> 2 \<and>
   search flat_ip_search example_engine example_store [1] 3 (Finite 0) =
     ([], log_msg ERROR (SearchFailed AssertionError) example_engine)"
proof -
  let ?ix = "\<lparr>faiss_class = IndexFlatIP, faiss_d = 2, faiss_vectors = [[1, 0], [0, 1 :: real]]\<rparr>"
  have ix: "index example_engine = Some ?ix" by (simp add: example_engine_eval)
  have len: "length [1 :: real] \<noteq> faiss_d ?ix" by simp
  from search_wrong_dimension_returns_empty[OF ix len] ix show ?thesis by simp
qed

text \<open>
  C4 as stated fails on the example engine, whose index has dimension 2: a query of
  length 3 is answered with the empty list, the same value as the answer to a query of
  length 2 whose threshold no stored sentence reaches.
\<close>

theorem wrong_dimension_looks_like_no_match:
  "length [1, 0, 0 :: real] \<noteq> 2 \<and>
   map_option faiss_d (index example_engine) = Some 2 \<and>
   fst (search flat_ip_search example_engine example_store [1, 0, 0] 2 (Finite 0)) = [] \<and>
   fst (search flat_ip_search example_engine example_store [1, 0] 2 (Finite 5)) = []"
  by (simp add: search_def example_engine_eval faiss_search_def flat_example_hits)

text \<open>
  Claim C5: \<open>get_all_embeddings\<close> returns exactly the sentences that have an
  embedding, as pairs of sentence id and vector, in strictly ascending order of id, and
  repeated calls on an unchanged store return the same sequence. The method reads the
  store and writes nothing, so a second call sees the same store; more than that, the
  result does not depend on the order in which the table holds its rows.
\<close>

theorem get_all_embeddings_ordered:
  assumes "wf_database db"
  shows "set (get_all_embeddings db) =
           {(sent_id s, v) | s v. s \<in> set (sentences db) \<and> embedding s = Some v} \<and>
         length (get_all_embeddings db) = stat_embeddings (get_stats db) \<and>
         sorted_wrt (<) (map fst (get_all_embeddings db)) \<and>
         (\<forall>db'. wf_database db' \<and> set (sentences db') = set (sentences db)
                \<longrightarrow> get_all_embeddings db' = get_all_embeddings db)"
proof -
  have sorted_any: "sorted_wrt (<) (map fst (get_all_embeddings d))" if "wf_database d" for d
    unfolding get_all_embeddings_def
    using that
    by (intro strict_sorted_sort_key distinct_ids_embedded_rows) (simp add: wf_database_def)
  have set_any: "set (get_all_embeddings d) =
           {(sent_id s, v) | s v. s \<in> set (sentences d) \<and> embedding s = Some v}" for d
    by (simp add: get_all_embeddings_def set_embedded_rows)
  have "get_all_embeddings db' = get_all_embeddings db"
    if "wf_database db'" "set (sentences db') = set (sentences db)" for db'
    by (rule strict_sorted_keys_unique)
       (simp_all add: sorted_any that assms set_any)
  moreover have "length (get_all_embeddings db) = stat_embeddings (get_stats db)"
    by (simp add: get_all_embeddings_def get_stats_def length_embedded_rows)
  ultimately show ?thesis using sorted_any[OF assms] set_any by blast
qed

theorem get_all_embeddings_ordered_witness:
  "wf_database example_store \<and>
   wf_database (example_store\<lparr>sentences := rev (sentences example_store)\<rparr>) \<and>
   length (get_all_embeddings example_store) = 2 \<and>
   sorted_wrt (<) (map fst (get_all_embeddings example_store)) \<and>
   get_all_embeddings (example_store\<lparr>sentences := rev (sentences example_store)\<rparr>) =
     get_all_embeddings example_store"
proof -
  have wf': "wf_database (example_store\<lparr>sentences := rev (sentences example_store)\<rparr>)"
    by (simp add: example_store_eval wf_database_def)
  have n: "stat_embeddings (get_stats example_store) = 2"
    by (simp add: example_store_eval get_stats_def)
  note inst = get_all_embeddings_ordered[OF wf_example_store]
  from inst have len: "length (get_all_embeddings example_store) = 2"
    unfolding n by (rule conjunct2[THEN conjunct1])
  from inst have ord: "sorted_wrt (<) (map fst (get_all_embeddings example_store))"
    by (rule conjunct2[THEN conjunct2, THEN conjunct1])
  from inst have "\<forall>db'. wf_database db' \<and> set (sentences db') = set (sentences example_store)
      \<longrightarrow> get_all_embeddings db' = get_all_embeddings example_store"
    by (rule conjunct2[THEN conjunct2, THEN conjunct2])
  then have "wf_database (example_store\<lparr>sentences := rev (sentences example_store)\<rparr>) \<and>
      set (sentences (example_store\<lparr>sentences := rev (sentences example_store)\<rparr>)) =
        set (sentences example_store)
      \<longrightarrow> get_all_embeddings (example_store\<lparr>sentences := rev (sentences example_store)\<rparr>) =
        get_all_embeddings example_store"
    by (rule spec)
  moreover have "set (sentences (example_store\<lparr>sentences := rev (sentences example_store)\<rparr>)) =
        set (sentences example_store)"
    by simp
  ultimately have same:
    "get_all_embeddings (example_store\<lparr>sentences := rev (sentences example_store)\<rparr>) =
        get_all_embeddings example_store"
    using wf' by (simp only: simp_thms)
  show ?thesis
    by (intro conjI) (rule wf_example_store, rule wf', rule len, rule ord, rule same)
qed






text \<open>
  Claim C8 says that hits with the invalid ordinal \<open>-1\<close> are discarded first, that the
  remaining hits are then filtered by the threshold, and that a hit passes that filter
  exactly when its score is at least the threshold. The order is that of the code; the
  test of the code is \<open>score < threshold\<close>, and a hit is kept when it is false. That
  is the same as \<open>score >= threshold\<close> unless the score or the threshold is NaN;
  with a NaN on either side the hit is kept. So the loop of \<open>search\<close>, and
  \<open>search\<close> on an index in memory, compute the passes with the code's test, and they
  compute the three passes of the specification when no NaN is involved.
\<close>

theorem hits_are_skipped_when_below_threshold:
  "search_loop st db threshold i hits =
     hydrate st db (skip_below_threshold threshold (discard_invalid (enumerate_from i hits))) \<and>
   (\<forall>score. \<not> float_lt score threshold \<longleftrightarrow>
              float_ge score threshold \<or> score = NaN \<or> threshold = NaN) \<and>
   (threshold \<noteq> NaN \<and> list_all (\<lambda>(score, idx). score \<noteq> NaN) hits \<longrightarrow>
      search_loop st db threshold i hits = three_passes st db threshold i hits) \<and>
   (index st = Some ix \<and> length q = faiss_d ix \<and> 0 < k \<longrightarrow>
      fst (search native st db q k threshold) =
        hydrate st db
          (skip_below_threshold threshold (discard_invalid (enumerate_from 0 (native ix q k)))))"
  using search_loop_as_passes[of st db threshold] not_float_lt_iff[of _ threshold]
    search_loop_is_three_passes[of threshold hits st db i]
  by (simp add: search_loaded)

theorem hits_are_skipped_when_below_threshold_witness:
  "index example_engine =
     Some \<lparr>faiss_class = IndexFlatIP, faiss_d = 2, faiss_vectors = [[1, 0], [0, 1]]\<rparr> \<and>
   Finite (1 / 2) \<noteq> NaN \<and>
   list_all (\<lambda>(score, idx). score \<noteq> NaN)
     [(Finite 1, 0), (Finite 0, 1), (Finite lowest_float32, - 1)] \<and>
   discard_invalid (enumerate_from 0 [(Finite 1, 0), (Finite 0, 1), (Finite lowest_float32, - 1)]) =
     [(0, Finite 1, 0), (1, Finite 0, 1)] \<and>
   skip_below_threshold (Finite (1 / 2)) [(0, Finite 1, 0), (1, Finite 0, 1)] =
     [(0, Finite 1, 0)] \<and>
   fst (search flat_ip_search example_engine example_store [1, 0] 3 (Finite (1 / 2))) =
     hydrate example_engine example_store [(0, Finite 1, 0)] \<and>
   search_loop example_engine example_store (Finite (1 / 2)) 0
     [(Finite 1, 0), (Finite 0, 1), (Finite lowest_float32, - 1)] =
     three_passes example_engine example_store (Finite (1 / 2)) 0
       [(Finite 1, 0), (Finite 0, 1), (Finite lowest_float32, - 1)] \<and>
   map res_id (fst (search flat_ip_search example_engine example_store [1, 0] 3 (Finite (1 / 2))))
     = [1]"
proof -
  let ?ix = "\<lparr>faiss_class = IndexFlatIP, faiss_d = 2, faiss_vectors = [[1, 0], [0, 1 :: real]]\<rparr>"
  let ?hits = "[(Finite 1, 0), (Finite 0, 1), (Finite lowest_float32, - 1)]"
  have ix: "index example_engine = Some ?ix" by (simp add: example_engine_eval)
  have fin: "Finite (1 / 2) \<noteq> NaN" by simp
  have nonan: "list_all (\<lambda>(score, idx). score \<noteq> NaN) ?hits" by simp
  have p1: "discard_invalid (enumerate_from 0 ?hits) = [(0, Finite 1, 0), (1, Finite 0, 1)]"
    by (simp add: discard_invalid_def)
  have p2: "skip_below_threshold (Finite (1 / 2)) [(0, Finite 1, 0), (1, Finite 0, 1)] =
      [(0 :: int, Finite 1, 0 :: int)]"
    by (simp add: skip_below_threshold_def)
  have h: "map res_id (hydrate example_engine example_store [(0, Finite 1, 0)]) = [1]"
    by (simp add: example_engine_eval example_store_eval get_sentence_by_id_def fetchone_def
          with_score_and_rank_def)
  note inst = hits_are_skipped_when_below_threshold
    [of example_engine example_store "Finite (1 / 2)" 0 ?hits ?ix "[1, 0]" 3 flat_ip_search]
  from inst fin nonan have eq3:
    "search_loop example_engine example_store (Finite (1 / 2)) 0 ?hits =
     three_passes example_engine example_store (Finite (1 / 2)) 0 ?hits"
    by blast
  from inst ix have
    "fst (search flat_ip_search example_engine example_store [1, 0] 3 (Finite (1 / 2))) =
       hydrate example_engine example_store
         (skip_below_threshold (Finite (1 / 2))
            (discard_invalid (enumerate_from 0 (flat_ip_search ?ix [1, 0] 3))))"
    by simp
  then have s: "fst (search flat_ip_search example_engine example_store [1, 0] 3 (Finite (1 / 2))) =
     hydrate example_engine example_store [(0, Finite 1, 0)]"
    unfolding flat_example_hits_padded p1 p2 .
  show ?thesis
    by (intro conjI) (rule ix, rule fin, rule nonan, rule p1, rule p2, rule s, rule eq3,
      simp only: s h)
qed

text \<open>
  C8 as stated fails for a NaN threshold, which the command line accepts: no score is
  at least NaN, and the three passes of the specification return nothing, but the
  search returns both sentences.
\<close>

theorem nan_threshold_keeps_every_hit:
  "\<not> float_ge (Finite 1) NaN \<and> \<not> float_ge (Finite 0) NaN \<and>
   three_passes example_engine example_store NaN 0 [(Finite 1, 0), (Finite 0, 1)] = [] \<and>
   map res_id (fst (search flat_ip_search example_engine example_store [1, 0] 2 NaN)) = [1, 2]"
  by (simp add: three_passes_def filter_by_threshold_def discard_invalid_def)
     (simp add: search_def faiss_search_def flat_example_hits example_engine_eval
        example_store_eval get_sentence_by_id_def fetchone_def with_score_and_rank_def)






end
